theory Spec2Isabelle
  imports Main "HOL-Library.Option_ord"
begin

section \<open>Strings as the handlers use them\<close>

text \<open>
  The views of \<^verbatim>\<open>tracker/views_start_order.py\<close> normalise their text inputs with
  Python's \<^verbatim>\<open>str.strip\<close>, \<^verbatim>\<open>str.upper\<close> and \<^verbatim>\<open>str.lower\<close>, and parse numbers with
  \<^verbatim>\<open>int\<close>. Strings are modelled as \<^typ>\<open>string\<close> over ASCII text: whitespace is the ASCII
  part of \<^verbatim>\<open>str.isspace\<close> (codes 9 to 13 and 28 to 32), and case conversion acts on the
  letters a to z only.
\<close>

definition is_space :: "char \<Rightarrow> bool" where
  "is_space c = (let n = (of_char c :: nat) in (9 \<le> n \<and> n \<le> 13) \<or> (28 \<le> n \<and> n \<le> 32))"

definition strip :: "string \<Rightarrow> string" where
  "strip s = rev (dropWhile is_space (rev (dropWhile is_space s)))"

definition upper_char :: "char \<Rightarrow> char" where
  "upper_char c = (let n = (of_char c :: nat) in if 97 \<le> n \<and> n \<le> 122 then char_of (n - 32) else c)"

definition lower_char :: "char \<Rightarrow> char" where
  "lower_char c = (let n = (of_char c :: nat) in if 65 \<le> n \<and> n \<le> 90 then char_of (n + 32) else c)"

definition upper :: "string \<Rightarrow> string" where
  "upper s = map upper_char s"

definition lower :: "string \<Rightarrow> string" where
  "lower s = map lower_char s"

definition startswith :: "string \<Rightarrow> string \<Rightarrow> bool" where
  "startswith s p = (take (length p) s = p)"

text \<open>Django's \<^verbatim>\<open>__iexact\<close> lookup: equality up to letter case.\<close>

definition iexact :: "string \<Rightarrow> string \<Rightarrow> bool" where
  "iexact a b = (upper a = upper b)"

definition newline :: char where
  "newline = CHR 0x0A"

text \<open>\<^verbatim>\<open>s.split(sep)\<close> for a one-character separator: the empty string gives one empty piece.\<close>

fun split_on :: "char \<Rightarrow> string \<Rightarrow> string list" where
  "split_on sep [] = [[]]"
| "split_on sep (c # cs) =
     (if c = sep then [] # split_on sep cs
      else (case split_on sep cs of [] \<Rightarrow> [[c]] | w # ws \<Rightarrow> (c # w) # ws))"

text \<open>\<^verbatim>\<open>sep.join(pieces)\<close>.\<close>

fun join :: "string \<Rightarrow> string list \<Rightarrow> string" where
  "join sep [] = []"
| "join sep [x] = x"
| "join sep (x # y # ys) = x @ sep @ join sep (y # ys)"

text \<open>
  \<^verbatim>\<open>int(s)\<close> on a string: surrounding whitespace is ignored, one sign is allowed, and the
  digits may be grouped by single underscores. \<open>None\<close> stands for the \<^verbatim>\<open>ValueError\<close>.
\<close>

definition is_digit :: "char \<Rightarrow> bool" where
  "is_digit c = (let n = (of_char c :: nat) in 48 \<le> n \<and> n \<le> 57)"

definition digit_val :: "char \<Rightarrow> nat" where
  "digit_val c = of_char c - 48"

fun parse_digits :: "nat \<Rightarrow> string \<Rightarrow> nat option" where
  "parse_digits acc [] = Some acc"
| "parse_digits acc [c] = (if is_digit c then Some (10 * acc + digit_val c) else None)"
| "parse_digits acc (c # d # ds) =
     (if is_digit c then parse_digits (10 * acc + digit_val c) (d # ds)
      else if c = CHR ''_'' \<and> is_digit d then parse_digits (10 * acc + digit_val d) ds
      else None)"

definition parse_nat :: "string \<Rightarrow> nat option" where
  "parse_nat s =
     (case s of [] \<Rightarrow> None
      | c # cs \<Rightarrow> if is_digit c then parse_digits (digit_val c) cs else None)"

definition py_int :: "string \<Rightarrow> int option" where
  "py_int s0 =
     (case strip s0 of [] \<Rightarrow> None
      | c # cs \<Rightarrow>
          if c = CHR ''-'' then map_option (\<lambda>n. - int n) (parse_nat cs)
          else if c = CHR ''+'' then map_option int (parse_nat cs)
          else map_option int (parse_nat (c # cs)))"

text \<open>Python's truth value of an optional integer: \<^verbatim>\<open>None\<close> and \<^verbatim>\<open>0\<close> are false.\<close>

definition truthy :: "int option \<Rightarrow> bool" where
  "truthy x = (case x of None \<Rightarrow> False | Some n \<Rightarrow> n \<noteq> 0)"



section \<open>The data model\<close>

text \<open>
  The rows of \<^verbatim>\<open>Customer\<close>, \<^verbatim>\<open>Vehicle\<close>, \<^verbatim>\<open>Order\<close>, \<^verbatim>\<open>ServiceType\<close> and \<^verbatim>\<open>ServiceAddon\<close>, with the
  fields the views read and write. A branch is \<open>None\<close> when \<^verbatim>\<open>get_user_branch\<close> returns
  \<^verbatim>\<open>None\<close>; a time stamp is a number of seconds. The order number, which the \<^verbatim>\<open>Order\<close>
  model generates when it saves, is not part of the views and is left out of the rows and
  of the responses.
\<close>

type_synonym branch = "nat option"
type_synonym datetime = int

record customer =
  c_id :: nat
  c_branch :: branch
  c_full_name :: string
  c_phone :: string
  c_customer_type :: string
  c_personal_subtype :: "string option"
  c_organization_name :: "string option"
  c_tax_number :: "string option"
  c_email :: "string option"
  c_address :: "string option"

record vehicle =
  v_id :: nat
  v_customer :: nat
  v_plate_number :: string
  v_make :: "string option"
  v_model :: "string option"

record order =
  o_id :: nat
  o_customer :: nat
  o_vehicle :: "nat option"
  o_branch :: branch
  o_type :: string
  o_status :: string
  o_created_at :: datetime
  o_started_at :: "datetime option"
  o_completed_at :: "datetime option"
  o_description :: "string option"
  o_priority :: string
  o_estimated_duration :: "int option"
  o_actual_duration :: "int option"
  o_overrun_reason :: "string option"
  o_overrun_reported_at :: "datetime option"
  o_overrun_reported_by :: "nat option"

record service_type =
  st_name :: string
  st_estimated_minutes :: "int option"
  st_is_active :: bool

record service_addon =
  sa_name :: string
  sa_estimated_minutes :: "int option"
  sa_is_active :: bool

text \<open>The database: each table in its default (primary key) order, new rows at the end.\<close>

record db =
  customers :: "customer list"
  vehicles :: "vehicle list"
  orders :: "order list"
  service_types :: "service_type list"
  service_addons :: "service_addon list"

text \<open>
  What a request brings besides its body: the logged-in user, the branch
  \<^verbatim>\<open>get_user_branch\<close> gives for that user, the value of \<^verbatim>\<open>timezone.now()\<close>, and whether
  the queries on the service catalogue raise.
\<close>

record env =
  e_user :: nat
  e_branch :: branch
  e_now :: datetime
  e_catalog_fails :: bool

definition next_id :: "nat list \<Rightarrow> nat" where
  "next_id ids = Suc (fold max ids 0)"

definition customer_of :: "db \<Rightarrow> vehicle \<Rightarrow> customer option" where
  "customer_of s v = find (\<lambda>c. c_id c = v_customer v) (customers s)"

text \<open>The join \<^verbatim>\<open>customer__branch=user_branch\<close> on a vehicle.\<close>

definition in_branch :: "db \<Rightarrow> branch \<Rightarrow> vehicle \<Rightarrow> bool" where
  "in_branch s b v = (case customer_of s v of None \<Rightarrow> False | Some c \<Rightarrow> c_branch c = b)"

text \<open>
  \<^verbatim>\<open>Vehicle.objects.filter(plate_number__iexact=plate, customer__branch=user_branch).first()\<close>
\<close>

definition find_vehicle :: "db \<Rightarrow> branch \<Rightarrow> string \<Rightarrow> vehicle option" where
  "find_vehicle s b plate =
     find (\<lambda>v. iexact (v_plate_number v) plate \<and> in_branch s b v) (vehicles s)"


section \<open>The create-or-get services\<close>

text \<open>
  Modelled from the spec: \<^verbatim>\<open>CustomerService.create_or_get_customer\<close> lives in
  \<^verbatim>\<open>tracker/services\<close>, which is not among the sources. The spec gives it create-or-get
  semantics with uniqueness per branch on name, phone and the organisation fields: the
  first customer of the branch with that name, phone, organisation name and tax number is
  returned, and a new row is appended when there is none.
\<close>

definition create_or_get_customer ::
  "db \<Rightarrow> branch \<Rightarrow> string \<Rightarrow> string \<Rightarrow> string \<Rightarrow> string option \<Rightarrow> string option \<Rightarrow>
   string option \<Rightarrow> string option \<Rightarrow> string option \<Rightarrow> db \<times> customer" where
  "create_or_get_customer s b name ph ctype subtype org tax mail addr =
     (case find (\<lambda>c. c_branch c = b \<and> c_full_name c = name \<and> c_phone c = ph \<and>
                      c_organization_name c = org \<and> c_tax_number c = tax) (customers s) of
        Some c \<Rightarrow> (s, c)
      | None \<Rightarrow>
          (let c = \<lparr>c_id = next_id (map c_id (customers s)), c_branch = b, c_full_name = name,
                    c_phone = ph, c_customer_type = ctype, c_personal_subtype = subtype,
                    c_organization_name = org, c_tax_number = tax, c_email = mail,
                    c_address = addr\<rparr>
           in (s\<lparr>customers := customers s @ [c]\<rparr>, c)))"

text \<open>
  Modelled from the spec: \<^verbatim>\<open>VehicleService.create_or_get_vehicle\<close>, also of
  \<^verbatim>\<open>tracker/services\<close>. The spec keys it on the plate under the given customer, the plate
  compared without regard to letter case: the customer's first vehicle with that plate is
  returned, and a new row is appended when there is none.
\<close>

definition create_or_get_vehicle ::
  "db \<Rightarrow> customer \<Rightarrow> string \<Rightarrow> string option \<Rightarrow> string option \<Rightarrow> db \<times> vehicle" where
  "create_or_get_vehicle s c plate mk mdl =
     (case find (\<lambda>v. v_customer v = c_id c \<and> iexact (v_plate_number v) plate) (vehicles s) of
        Some v \<Rightarrow> (s, v)
      | None \<Rightarrow>
          (let v = \<lparr>v_id = next_id (map v_id (vehicles s)), v_customer = c_id c,
                    v_plate_number = plate, v_make = mk, v_model = mdl\<rparr>
           in (s\<lparr>vehicles := vehicles s @ [v]\<rparr>, v)))"


section \<open>Overrun report\<close>

text \<open>
  The loop body of \<^verbatim>\<open>overrun_reports\<close> (lines 899 to 905): the delay is computed only when
  both durations are true in Python's sense, that is present and not zero. The durations
  are integers, so the \<^verbatim>\<open>int\<close> conversions cannot raise.
\<close>

definition delay_minutes :: "order \<Rightarrow> int option" where
  "delay_minutes ord =
     (if truthy (o_actual_duration ord) \<and> truthy (o_estimated_duration ord)
      then (case (o_actual_duration ord, o_estimated_duration ord) of
              (Some a, Some e) \<Rightarrow> Some (max 0 (a - e))
            | _ \<Rightarrow> None)
      else None)"

record overrun_row =
  r_id :: nat
  r_overrun_reason :: "string option"
  r_overrun_reported_by :: "nat option"
  r_overrun_reported_at :: "datetime option"
  r_delay_minutes :: "int option"

text \<open>
  \<^verbatim>\<open>qs.filter(overrun_reason__isnull=False).order_by('-overrun_reported_at')\<close>, the branch
  filter applied only when the user has a branch. Rows without a report time sort as the
  smallest.
\<close>

definition overruns :: "db \<Rightarrow> branch \<Rightarrow> order list" where
  "overruns s user_branch =
     rev (sort_key o_overrun_reported_at
       (filter (\<lambda>ord. o_overrun_reason ord \<noteq> None)
         (if user_branch = None then orders s
          else filter (\<lambda>ord. o_branch ord = user_branch) (orders s))))"

definition recent_overruns :: "db \<Rightarrow> branch \<Rightarrow> overrun_row list" where
  "recent_overruns s user_branch =
     map (\<lambda>ord. \<lparr>r_id = o_id ord, r_overrun_reason = o_overrun_reason ord,
               r_overrun_reported_by = o_overrun_reported_by ord,
               r_overrun_reported_at = o_overrun_reported_at ord,
               r_delay_minutes = delay_minutes ord\<rparr>)
         (take 50 (overruns s user_branch))"

text \<open>The delay as the specification words it: the clamped difference whenever both
  durations are present.\<close>

definition spec_delay_minutes :: "int option \<Rightarrow> int option \<Rightarrow> int option" where
  "spec_delay_minutes actual estimated =
     (case (actual, estimated) of
        (Some a, Some e) \<Rightarrow> Some (max 0 (a - e))
      | _ \<Rightarrow> None)"

text \<open>An order row with every optional field empty, from which examples are built.\<close>

definition blank_order :: order where
  "blank_order =
     \<lparr>o_id = 1, o_customer = 1, o_vehicle = None, o_branch = Some 1, o_type = ''service'',
      o_status = ''created'', o_created_at = 0, o_started_at = None, o_completed_at = None,
      o_description = None, o_priority = ''medium'', o_estimated_duration = None,
      o_actual_duration = None, o_overrun_reason = None, o_overrun_reported_at = None,
      o_overrun_reported_by = None\<rparr>"

definition empty_db :: db where
  "empty_db = \<lparr>customers = [], vehicles = [], orders = [], service_types = [],
               service_addons = []\<rparr>"


section \<open>Plate lookup\<close>

record customer_info =
  ci_id :: nat
  ci_full_name :: string
  ci_phone :: string

record vehicle_info =
  vi_id :: nat
  vi_plate :: string
  vi_make :: "string option"
  vi_model :: "string option"

definition customer_info_of :: "customer \<Rightarrow> customer_info" where
  "customer_info_of c = \<lparr>ci_id = c_id c, ci_full_name = c_full_name c, ci_phone = c_phone c\<rparr>"

definition vehicle_info_of :: "vehicle \<Rightarrow> vehicle_info" where
  "vehicle_info_of v =
     \<lparr>vi_id = v_id v, vi_plate = v_plate_number v, vi_make = v_make v, vi_model = v_model v\<rparr>"

text \<open>
  The JSON body of \<^verbatim>\<open>api_check_plate\<close>; a body that is not JSON is \<open>None\<close>, and so is a
  missing \<^verbatim>\<open>plate_number\<close>.
\<close>

record check_request =
  cp_plate_number :: "string option"

datatype check_response =
    NotFound
  | Found customer_info vehicle_info
  | CheckError

text \<open>
  \<^verbatim>\<open>api_check_plate\<close> (lines 186 to 202). Every exception, the JSON error included, ends in
  the 500 response with \<^verbatim>\<open>found: False\<close>.
\<close>

definition api_check_plate :: "db \<Rightarrow> env \<Rightarrow> check_request option \<Rightarrow> check_response" where
  "api_check_plate s ev body =
     (case body of
        None \<Rightarrow> CheckError
      | Some data \<Rightarrow>
          (let plate_number =
                 upper (strip (case cp_plate_number data of None \<Rightarrow> [] | Some p \<Rightarrow> p))
           in if plate_number = [] then NotFound
              else (case find_vehicle s (e_branch ev) plate_number of
                      None \<Rightarrow> NotFound
                    | Some vehicle \<Rightarrow>
                        (case customer_of s vehicle of
                           None \<Rightarrow> CheckError
                         | Some c \<Rightarrow> Found (customer_info_of c) (vehicle_info_of vehicle)))))"

definition found :: "check_response \<Rightarrow> bool" where
  "found r = (case r of Found _ _ \<Rightarrow> True | _ \<Rightarrow> False)"


section \<open>Recording an overrun reason\<close>



text \<open>\<^verbatim>\<open>get_object_or_404(Order, id=order_id, branch=user_branch)\<close>; \<open>None\<close> is \<^verbatim>\<open>Http404\<close>.\<close>

definition get_order :: "db \<Rightarrow> nat \<Rightarrow> branch \<Rightarrow> order option" where
  "get_order s oid b = find (\<lambda>ord. o_id ord = oid \<and> o_branch ord = b) (orders s)"




section \<open>Dashboard figures\<close>

definition date_of :: "datetime \<Rightarrow> int" where
  "date_of t = t div 86400"

text \<open>\<^verbatim>\<open>started_at__date=timezone.now().date()\<close>\<close>

definition started_on :: "int \<Rightarrow> order \<Rightarrow> bool" where
  "started_on day ord = (case o_started_at ord of None \<Rightarrow> False | Some t \<Rightarrow> date_of t = day)"

text \<open>The join \<^verbatim>\<open>vehicle__plate_number\<close> of an order; \<open>None\<close> for an order without vehicle.\<close>

definition plate_of :: "db \<Rightarrow> order \<Rightarrow> string option" where
  "plate_of s ord =
     (case o_vehicle ord of
        None \<Rightarrow> None
      | Some vid \<Rightarrow> map_option v_plate_number (find (\<lambda>v. v_id v = vid) (vehicles s)))"

text \<open>
  The query of lines 950 to 955: the branch's orders with status \<^verbatim>\<open>created\<close> started
  today that have a vehicle, as the list of their plates.
\<close>

definition today_plates :: "db \<Rightarrow> branch \<Rightarrow> int \<Rightarrow> string list" where
  "today_plates s b day =
     List.map_filter (plate_of s)
       (filter (\<lambda>ord. o_branch ord = b \<and> o_status ord = ''created'' \<and> started_on day ord)
          (orders s))"

text \<open>
  \<^verbatim>\<open>.values('vehicle__plate_number').annotate(order_count=Count('id'))
  .filter(order_count__gte=2).count()\<close>: one group per plate, kept when it has two orders
  or more.
\<close>

definition repeated_vehicles_today :: "db \<Rightarrow> branch \<Rightarrow> int \<Rightarrow> nat" where
  "repeated_vehicles_today s b day =
     length (filter (\<lambda>p. 2 \<le> count_list (today_plates s b day) p)
               (remdups (today_plates s b day)))"

record kpis =
  k_total_started :: nat
  k_today_started :: nat
  k_repeated_vehicles_today :: nat

text \<open>\<^verbatim>\<open>api_started_orders_kpis\<close> (lines 931 to 963).\<close>

definition api_started_orders_kpis :: "db \<Rightarrow> env \<Rightarrow> kpis" where
  "api_started_orders_kpis s ev =
     \<lparr>k_total_started =
        length (filter (\<lambda>ord. o_branch ord = e_branch ev \<and> o_status ord = ''created'')
                  (orders s)),
      k_today_started =
        length (filter (\<lambda>ord. o_branch ord = e_branch ev \<and> o_status ord = ''created'' \<and>
                          started_on (date_of (e_now ev)) ord) (orders s)),
      k_repeated_vehicles_today =
        repeated_vehicles_today s (e_branch ev) (date_of (e_now ev))\<rparr>"

text \<open>
  The figure as the specification words it: the number of plates with at least two
  orders of the branch started on the day, whatever their status.
\<close>

definition spec_repeated_vehicles :: "db \<Rightarrow> branch \<Rightarrow> int \<Rightarrow> nat" where
  "spec_repeated_vehicles s b day =
     card {p. 2 \<le> length (filter (\<lambda>ord. o_branch ord = b \<and> started_on day ord \<and>
                                        plate_of s ord = Some p) (orders s))}"


section \<open>Sample data\<close>

text \<open>Rows and states on which the theorems below are instantiated.\<close>

definition sample_customer :: "nat \<Rightarrow> branch \<Rightarrow> string \<Rightarrow> string \<Rightarrow> customer" where
  "sample_customer i b name ph =
     \<lparr>c_id = i, c_branch = b, c_full_name = name, c_phone = ph,
      c_customer_type = ''personal'', c_personal_subtype = None,
      c_organization_name = None, c_tax_number = None, c_email = None, c_address = None\<rparr>"

definition sample_vehicle :: "nat \<Rightarrow> nat \<Rightarrow> string \<Rightarrow> vehicle" where
  "sample_vehicle i c plate =
     \<lparr>v_id = i, v_customer = c, v_plate_number = plate, v_make = None, v_model = None\<rparr>"

text \<open>Two branches, one customer with one vehicle in each, and no order.\<close>

definition shop_db :: db where
  "shop_db = empty_db
     \<lparr>customers := [sample_customer 1 (Some 1) ''Asha'' ''0700'',
                    sample_customer 2 (Some 2) ''Ben'' ''0711''],
      vehicles := [sample_vehicle 1 1 ''T123ABC'', sample_vehicle 2 2 ''T999XYZ'']\<rparr>"

text \<open>A user of branch 1, on day 10.\<close>

definition clerk :: env where
  "clerk = \<lparr>e_user = 7, e_branch = Some 1, e_now = 864100, e_catalog_fails = False\<rparr>"

definition started_order :: "nat \<Rightarrow> nat \<Rightarrow> string \<Rightarrow> order" where
  "started_order i vid st =
     blank_order\<lparr>o_id := i, o_vehicle := Some vid, o_status := st, o_started_at := Some 864050\<rparr>"

text \<open>Branch 1 with two orders of status \<open>st\<close> started on day 10 for one plate and one
  for another.\<close>

definition kpi_db :: "string \<Rightarrow> db" where
  "kpi_db st = shop_db
     \<lparr>vehicles := [sample_vehicle 1 1 ''T123ABC'', sample_vehicle 3 1 ''T555DEF''],
      orders := [started_order 1 1 st, started_order 2 1 st, started_order 3 3 st]\<rparr>"


section \<open>Updating the details of a started order\<close>

text \<open>
  The lines of a description that record a services selection (line 484): a line whose
  trimmed, lower-cased text starts with one of the three headers.
\<close>

definition is_header_line :: "string \<Rightarrow> bool" where
  "is_header_line l =
     (startswith (lower (strip l)) ''services:'' \<or>
      startswith (lower (strip l)) ''add-ons:'' \<or>
      startswith (lower (strip l)) ''tire services:'')"

text \<open>
  The services block of the action \<^verbatim>\<open>update_order_details\<close> (lines 479 to 492), on the
  order object in memory.
\<close>

definition update_services :: "order \<Rightarrow> string list \<Rightarrow> order" where
  "update_services ord services =
     (if services = [] then ord
      else
        (let svc_text = join '', '' services;
             base_desc = (case o_description ord of None \<Rightarrow> [] | Some d \<Rightarrow> d);
             lines = filter (\<lambda>l. \<not> is_header_line l) (split_on newline base_desc);
             lines2 = lines @ [if o_type ord = ''sales'' then ''Tire Services: '' @ svc_text
                               else ''Services: '' @ svc_text]
         in ord\<lparr>o_description := Some (join [newline] (filter (\<lambda>l. strip l \<noteq> []) lines2))\<rparr>))"

text \<open>
  The form of the action: the list \<^verbatim>\<open>services\<close> and the field \<^verbatim>\<open>estimated_duration\<close>
  (empty when it is not sent). The fields \<^verbatim>\<open>item_id\<close> and \<^verbatim>\<open>item_quantity\<close> (lines 461 to
  476) write the item name, brand and quantity of a sales order only, which the rows of
  this model do not carry.
\<close>

record details_request =
  dr_services :: "string list"
  dr_estimated_duration :: string

definition update_order_details :: "order \<Rightarrow> details_request \<Rightarrow> order" where
  "update_order_details ord req =
     (let ord2 = update_services ord (dr_services req)
      in (case py_int (dr_estimated_duration req) of
            None \<Rightarrow> ord2
          | Some n \<Rightarrow> ord2\<lparr>o_estimated_duration := Some n\<rparr>))"

text \<open>\<^verbatim>\<open>order.save()\<close>: the row with the order's primary key is overwritten.\<close>

definition save_order :: "order \<Rightarrow> order list \<Rightarrow> order list" where
  "save_order obj rows = map (\<lambda>row. if o_id row = o_id obj then obj else row) rows"

text \<open>
  \<^verbatim>\<open>started_order_detail\<close> with the action \<^verbatim>\<open>update_order_details\<close>; \<open>None\<close> is the 404
  response for an order that is not of the user's branch.
\<close>

definition started_order_detail_update :: "db \<Rightarrow> env \<Rightarrow> nat \<Rightarrow> details_request \<Rightarrow> db option" where
  "started_order_detail_update s ev order_id req =
     (case get_order s order_id (e_branch ev) of
        None \<Rightarrow> None
      | Some ord \<Rightarrow> Some (s\<lparr>orders := save_order (update_order_details ord req) (orders s)\<rparr>))"

text \<open>The lines of a description that the specification calls header lines.\<close>

definition header_lines :: "string option \<Rightarrow> string list" where
  "header_lines d =
     filter is_header_line (split_on newline (case d of None \<Rightarrow> [] | Some t \<Rightarrow> t))"


text \<open>The header line the action appends, and the lines of the old description it keeps.\<close>

definition header_of :: "order \<Rightarrow> string list \<Rightarrow> string" where
  "header_of ord services =
     (if o_type ord = ''sales'' then ''Tire Services: '' @ join '', '' services
      else ''Services: '' @ join '', '' services)"

definition kept_lines :: "order \<Rightarrow> string list" where
  "kept_lines ord =
     filter (\<lambda>l. strip l \<noteq> [] \<and> \<not> is_header_line l)
       (split_on newline (case o_description ord of None \<Rightarrow> [] | Some d \<Rightarrow> d))"

text \<open>An order whose description holds a note and an earlier selection, and three forms.\<close>

definition noted_order :: order where
  "noted_order =
     blank_order\<lparr>o_description := Some (''Brake check'' @ [newline] @ ''Services: Wash'')\<rparr>"

definition oil_request :: details_request where
  "oil_request = \<lparr>dr_services = [''Oil change'', ''Wash''], dr_estimated_duration = ''45''\<rparr>"

definition two_header_request :: details_request where
  "two_header_request =
     \<lparr>dr_services = [''Oil'' @ [newline] @ ''Services: Wash''], dr_estimated_duration = ''''\<rparr>"

definition two_line_request :: details_request where
  "two_line_request =
     \<lparr>dr_services = [''Oil'' @ [newline] @ ''see note''], dr_estimated_duration = ''''\<rparr>"


section \<open>Starting an order\<close>

text \<open>
  The JSON body of \<^verbatim>\<open>api_start_order\<close>. A key that is not sent is \<open>None\<close>, \<open>False\<close> or
  the empty list; a body that is not JSON is \<open>None\<close> as a whole.
\<close>

record start_request =
  sr_plate_number :: "string option"
  sr_order_type :: "string option"
  sr_use_existing_customer :: bool
  sr_existing_customer_id :: "nat option"
  sr_service_selection :: "string list"
  sr_estimated_duration :: "int option"

text \<open>
  The four answers: an error with its status, the order that already exists for the plate
  (status 200), the customer and vehicle found for the plate (status 200, no order), and
  the order of the transaction (status 201). Orders are answered with their id, the
  plate and their start time.
\<close>

datatype start_response =
    StartError nat string
  | ExistingOrder nat string datetime
  | ExistingCustomer customer_info vehicle_info
  | Started nat string datetime

definition response_order_id :: "start_response \<Rightarrow> nat option" where
  "response_order_id r =
     (case r of ExistingOrder i _ _ \<Rightarrow> Some i | Started i _ _ \<Rightarrow> Some i | _ \<Rightarrow> None)"

definition created_orders_of :: "db \<Rightarrow> nat \<Rightarrow> order list" where
  "created_orders_of s vid =
     filter (\<lambda>ord. o_vehicle ord = Some vid \<and> o_status ord = ''created'') (orders s)"

text \<open>\<^verbatim>\<open>.order_by('-created_at').first()\<close>\<close>

fun latest :: "order list \<Rightarrow> order option" where
  "latest [] = None"
| "latest (x # xs) =
     (case latest xs of
        None \<Rightarrow> Some x
      | Some y \<Rightarrow> if o_created_at x < o_created_at y then Some y else Some x)"

text \<open>\<^verbatim>\<open>use_existing or existing_customer_id\<close>, and \<^verbatim>\<open>use_existing and existing_customer_id\<close>.\<close>

definition reuse_confirmed :: "start_request \<Rightarrow> bool" where
  "reuse_confirmed data =
     (sr_use_existing_customer data \<or>
      (case sr_existing_customer_id data of None \<Rightarrow> False | Some n \<Rightarrow> n \<noteq> 0))"

definition reuse_customer :: "start_request \<Rightarrow> nat option" where
  "reuse_customer data =
     (if sr_use_existing_customer data
      then (case sr_existing_customer_id data of
              None \<Rightarrow> None
            | Some n \<Rightarrow> if n \<noteq> 0 then Some n else None)
      else None)"

text \<open>
  Lines 139 to 142: the minutes of the active service types and of the add-ons whose name
  is among the selected names, a missing number of minutes counting as zero.
\<close>

definition selected_minutes :: "db \<Rightarrow> string list \<Rightarrow> int" where
  "selected_minutes s sel =
     sum_list (map (\<lambda>t. case st_estimated_minutes t of None \<Rightarrow> 0 | Some m \<Rightarrow> m)
                 (filter (\<lambda>t. st_name t \<in> set sel \<and> st_is_active t) (service_types s)))
     + sum_list (map (\<lambda>a. case sa_estimated_minutes a of None \<Rightarrow> 0 | Some m \<Rightarrow> m)
                   (filter (\<lambda>a. sa_name a \<in> set sel) (service_addons s)))"

text \<open>Lines 137 to 146, with the exception of the catalogue queries swallowed.\<close>

definition estimated_from_services ::
  "db \<Rightarrow> env \<Rightarrow> string \<Rightarrow> string list \<Rightarrow> int option \<Rightarrow> int option" where
  "estimated_from_services s ev order_type sel est =
     (if sel \<noteq> [] \<and> order_type = ''service''
      then (if e_catalog_fails ev then est
            else if selected_minutes s sel \<noteq> 0 then Some (selected_minutes s sel)
            else est)
      else est)"

text \<open>
  The transaction of \<^verbatim>\<open>api_start_order\<close> (lines 101 to 175). An unknown customer id raises
  \<^verbatim>\<open>Http404\<close> before anything is written; the outer handler turns it into status 500. The
  response is built after the transaction has committed, so an existing order without
  start time gives status 500 with the new customer and vehicle kept.
\<close>

definition start_transaction ::
  "db \<Rightarrow> env \<Rightarrow> string \<Rightarrow> string \<Rightarrow> start_request \<Rightarrow> db \<times> start_response" where
  "start_transaction s ev plate_number order_type data =
     (case (case reuse_customer data of
              Some cid \<Rightarrow>
                map_option (Pair s)
                  (find (\<lambda>c. c_id c = cid \<and> c_branch c = e_branch ev) (customers s))
            | None \<Rightarrow>
                Some (create_or_get_customer s (e_branch ev) (''Plate '' @ plate_number)
                        (''PLATE_'' @ plate_number) ''personal'' None None None None None)) of
        None \<Rightarrow> (s, StartError 500 ''Server error: No Customer matches the given query.'')
      | Some (s1, customer) \<Rightarrow>
          (case create_or_get_vehicle s1 customer plate_number None None of
             (s2, vehicle) \<Rightarrow>
               (let estimated_duration =
                      estimated_from_services s2 ev order_type (sr_service_selection data)
                        (sr_estimated_duration data);
                    desc = ''Order started for '' @ plate_number @
                      (if sr_service_selection data \<noteq> []
                       then '': '' @ join '', '' (sr_service_selection data) else [])
                in (case find (\<lambda>ord. o_vehicle ord = Some (v_id vehicle) \<and>
                                       o_status ord = ''created'') (orders s2) of
                      Some existing_order \<Rightarrow>
                        (case o_started_at existing_order of
                           None \<Rightarrow> (s2, StartError 500 ''Server error'')
                         | Some t \<Rightarrow> (s2, Started (o_id existing_order) plate_number t))
                    | None \<Rightarrow>
                        (let ord =
                           \<lparr>o_id = next_id (map o_id (orders s2)),
                            o_customer = c_id customer,
                            o_vehicle = Some (v_id vehicle),
                            o_branch = e_branch ev,
                            o_type = order_type,
                            o_status = ''created'',
                            o_created_at = e_now ev,
                            o_started_at = Some (e_now ev),
                            o_completed_at = None,
                            o_description = Some desc,
                            o_priority = ''medium'',
                            o_estimated_duration =
                              (if truthy estimated_duration then estimated_duration else None),
                            o_actual_duration = None,
                            o_overrun_reason = None,
                            o_overrun_reported_at = None,
                            o_overrun_reported_by = None\<rparr>
                         in (s2\<lparr>orders := orders s2 @ [ord]\<rparr>,
                             Started (o_id ord) plate_number (e_now ev)))))))"

text \<open>\<^verbatim>\<open>api_start_order\<close> (lines 27 to 181).\<close>

definition api_start_order :: "db \<Rightarrow> env \<Rightarrow> start_request option \<Rightarrow> db \<times> start_response" where
  "api_start_order s ev body =
     (case body of
        None \<Rightarrow> (s, StartError 400 ''Invalid JSON'')
      | Some data \<Rightarrow>
          (let plate_number =
                 upper (strip (case sr_plate_number data of None \<Rightarrow> [] | Some p \<Rightarrow> p));
               order_type = (case sr_order_type data of None \<Rightarrow> ''service'' | Some t \<Rightarrow> t)
           in if plate_number = [] then (s, StartError 400 ''Vehicle plate number is required'')
              else if order_type \<notin> set [''service'', ''sales'', ''inquiry'']
              then (s, StartError 400 ''Invalid order type'')
              else
                (case find_vehicle s (e_branch ev) plate_number of
                   None \<Rightarrow> start_transaction s ev plate_number order_type data
                 | Some existing_vehicle \<Rightarrow>
                     if reuse_confirmed data
                     then start_transaction s ev plate_number order_type data
                     else
                       (case latest (created_orders_of s (v_id existing_vehicle)) of
                          Some existing_order \<Rightarrow>
                            (case o_started_at existing_order of
                               None \<Rightarrow> (s, StartError 500 ''Server error'')
                             | Some t \<Rightarrow>
                                 (s, ExistingOrder (o_id existing_order) plate_number t))
                        | None \<Rightarrow>
                            (case customer_of s existing_vehicle of
                               None \<Rightarrow> (s, StartError 500 ''Server error'')
                             | Some c \<Rightarrow>
                                 (s, ExistingCustomer (customer_info_of c)
                                       (vehicle_info_of existing_vehicle)))))))"

text \<open>
  The invariant of the data model: no vehicle has two orders of status \<^verbatim>\<open>created\<close>. The
  vehicles of the created orders, listed order by order, are pairwise different.
\<close>

definition created_vehicle_ids :: "db \<Rightarrow> nat list" where
  "created_vehicle_ids s =
     List.map_filter (\<lambda>ord. if o_status ord = ''created'' then o_vehicle ord else None)
       (orders s)"

definition one_created_per_vehicle :: "db \<Rightarrow> bool" where
  "one_created_per_vehicle s = distinct (created_vehicle_ids s)"

text \<open>
  The integrity the database enforces: primary keys are unique, the customer of a vehicle
  and the vehicle of an order exist.
\<close>

definition db_integrity :: "db \<Rightarrow> bool" where
  "db_integrity s =
     (distinct (map c_id (customers s)) \<and>
      distinct (map v_id (vehicles s)) \<and>
      list_all (\<lambda>v. v_customer v \<in> set (map c_id (customers s))) (vehicles s) \<and>
      list_all (\<lambda>ord. case o_vehicle ord of
                        None \<Rightarrow> True
                      | Some vid \<Rightarrow> vid \<in> set (map v_id (vehicles s))) (orders s))"

text \<open>The duration as the specification words it: every service type of a selected
  name counts, active or not.\<close>

definition spec_selected_minutes :: "db \<Rightarrow> string list \<Rightarrow> int" where
  "spec_selected_minutes s sel =
     sum_list (map (\<lambda>t. case st_estimated_minutes t of None \<Rightarrow> 0 | Some m \<Rightarrow> m)
                 (filter (\<lambda>t. st_name t \<in> set sel) (service_types s)))
     + sum_list (map (\<lambda>a. case sa_estimated_minutes a of None \<Rightarrow> 0 | Some m \<Rightarrow> m)
                   (filter (\<lambda>a. sa_name a \<in> set sel) (service_addons s)))"


section \<open>The modal forms\<close>



















definition start_form :: "string \<Rightarrow> start_request" where
  "start_form plate =
     \<lparr>sr_plate_number = Some plate, sr_order_type = Some ''service'',
      sr_use_existing_customer = False, sr_existing_customer_id = None,
      sr_service_selection = [], sr_estimated_duration = None\<rparr>"

text \<open>The sample shop with one service type that is no longer active.\<close>

definition catalogue_db :: db where
  "catalogue_db = shop_db
     \<lparr>service_types := [\<lparr>st_name = ''Oil change'', st_estimated_minutes = Some 30,
                          st_is_active = False\<rparr>,
                         \<lparr>st_name = ''Wash'', st_estimated_minutes = Some 20,
                          st_is_active = True\<rparr>],
      service_addons := [\<lparr>sa_name = ''Wax'', sa_estimated_minutes = Some 15,
                           sa_is_active = False\<rparr>]\<rparr>"





section \<open>Properties of the overrun report\<close>

lemma delay_minutes_cases:
  "delay_minutes ord =
     (case (o_actual_duration ord, o_estimated_duration ord) of
        (Some a, Some e) \<Rightarrow> if a \<noteq> 0 \<and> e \<noteq> 0 then Some (max 0 (a - e)) else None
      | _ \<Rightarrow> None)"
  by (simp add: delay_minutes_def truthy_def split: option.splits)

text \<open>
  C6, as amended. Every row of the overrun report carries the delay of an order of the
  database: the difference of actual and estimated duration clamped at zero when both are
  present and not zero, and no delay when either is missing or zero. Actual 90 against
  estimated 60 gives 30, and a missing actual duration gives no delay.
\<close>

theorem overrun_delay_nonzero_durations:
  "(r \<in> set (recent_overruns s b) \<longrightarrow>
      (\<exists>ord \<in> set (orders s). r_id r = o_id ord \<and> r_delay_minutes r = delay_minutes ord))
   \<and> (o_actual_duration ord = Some a \<and> o_estimated_duration ord = Some e \<and> a \<noteq> 0 \<and> e \<noteq> 0 \<longrightarrow>
        delay_minutes ord = Some (max 0 (a - e)))
   \<and> (o_actual_duration ord = None \<or> o_estimated_duration ord = None \<or>
      o_actual_duration ord = Some 0 \<or> o_estimated_duration ord = Some 0 \<longrightarrow>
        delay_minutes ord = None)
   \<and> delay_minutes (blank_order\<lparr>o_actual_duration := Some 90, o_estimated_duration := Some 60\<rparr>)
        = Some 30
   \<and> delay_minutes (blank_order\<lparr>o_estimated_duration := Some 60\<rparr>) = None"
proof -
  have rows: "r \<in> set (recent_overruns s b) \<longrightarrow>
      (\<exists>ord \<in> set (orders s). r_id r = o_id ord \<and> r_delay_minutes r = delay_minutes ord)"
  proof
    assume "r \<in> set (recent_overruns s b)"
    then obtain ord where ord: "ord \<in> set (take 50 (overruns s b))"
      and r: "r = \<lparr>r_id = o_id ord, r_overrun_reason = o_overrun_reason ord,
               r_overrun_reported_by = o_overrun_reported_by ord,
               r_overrun_reported_at = o_overrun_reported_at ord,
               r_delay_minutes = delay_minutes ord\<rparr>"
      by (auto simp: recent_overruns_def)
    from ord have "ord \<in> set (overruns s b)"
      by (rule in_set_takeD)
    then have "ord \<in> set (orders s)"
      by (auto simp: overruns_def split: if_splits)
    with r show "\<exists>ord \<in> set (orders s). r_id r = o_id ord \<and> r_delay_minutes r = delay_minutes ord"
      by auto
  qed
  have present: "o_actual_duration ord = Some a \<and> o_estimated_duration ord = Some e \<and> a \<noteq> 0 \<and> e \<noteq> 0 \<longrightarrow>
        delay_minutes ord = Some (max 0 (a - e))"
    by (simp add: delay_minutes_cases)
  have missing: "o_actual_duration ord = None \<or> o_estimated_duration ord = None \<or>
      o_actual_duration ord = Some 0 \<or> o_estimated_duration ord = Some 0 \<longrightarrow>
        delay_minutes ord = None"
    by (auto simp: delay_minutes_cases split: option.splits)
  have ex1: "delay_minutes (blank_order\<lparr>o_actual_duration := Some 90, o_estimated_duration := Some 60\<rparr>)
        = Some 30"
    by (simp add: delay_minutes_cases blank_order_def)
  have ex2: "delay_minutes (blank_order\<lparr>o_estimated_duration := Some 60\<rparr>) = None"
    by (simp add: delay_minutes_cases blank_order_def)
  from rows present missing ex1 ex2 show ?thesis
    by blast
qed

theorem overrun_delay_nonzero_durations_witness:
  "(\<exists>ord \<in> set (orders (empty_db\<lparr>orders :=
        [blank_order\<lparr>o_overrun_reason := Some ''parts late'', o_actual_duration := Some 90,
           o_estimated_duration := Some 60\<rparr>]\<rparr>)).
      o_id ord = 1 \<and> delay_minutes ord = Some 30)
   \<and> delay_minutes (blank_order\<lparr>o_overrun_reason := Some ''parts late'',
        o_actual_duration := Some 90, o_estimated_duration := Some 60\<rparr>) = Some (max 0 (90 - 60))"
  using overrun_delay_nonzero_durations
    [of "\<lparr>r_id = 1, r_overrun_reason = Some ''parts late'', r_overrun_reported_by = None,
          r_overrun_reported_at = None, r_delay_minutes = Some 30\<rparr>"
        "empty_db\<lparr>orders :=
          [blank_order\<lparr>o_overrun_reason := Some ''parts late'', o_actual_duration := Some 90,
             o_estimated_duration := Some 60\<rparr>]\<rparr>"
        "Some 1"
        "blank_order\<lparr>o_overrun_reason := Some ''parts late'', o_actual_duration := Some 90,
           o_estimated_duration := Some 60\<rparr>"
        90 60]
  by (simp add: recent_overruns_def overruns_def empty_db_def blank_order_def
      delay_minutes_cases)

text \<open>
  C6 as stated fails on a duration of zero. An order with actual duration 90 and estimated
  duration 0 has both durations present, so the claim gives the delay 90; the report gives
  no delay, because a zero duration is false in the test \<^verbatim>\<open>if o.actual_duration and
  o.estimated_duration\<close>.
\<close>

theorem overrun_delay_zero_counterexample:
  "delay_minutes (blank_order\<lparr>o_actual_duration := Some 90, o_estimated_duration := Some 0\<rparr>)
     = None
   \<and> spec_delay_minutes
       (o_actual_duration (blank_order\<lparr>o_actual_duration := Some 90,
          o_estimated_duration := Some 0\<rparr>))
       (o_estimated_duration (blank_order\<lparr>o_actual_duration := Some 90,
          o_estimated_duration := Some 0\<rparr>)) = Some 90"
  by (simp add: delay_minutes_cases spec_delay_minutes_def blank_order_def)


section \<open>Properties of the plate lookup\<close>

lemma upper_char_idem: "upper_char (upper_char c) = upper_char c"
proof (cases "97 \<le> (of_char c :: nat) \<and> (of_char c :: nat) \<le> 122")
  case True
  then have "(of_char c - 32 :: nat) mod 256 = of_char c - 32"
    by (intro mod_less) arith
  with True show ?thesis
    by (simp add: upper_char_def Let_def) arith
next
  case False
  then have "upper_char c = c"
    by (auto simp: upper_char_def Let_def)
  then show ?thesis by simp
qed

lemma upper_idem: "upper (upper s) = upper s"
  by (simp add: upper_def upper_char_idem)

lemma iexact_upper: "iexact a (upper b) = iexact a b"
  by (simp add: iexact_def upper_idem)

lemma iexact_refl: "iexact a a"
  by (simp add: iexact_def)

lemma find_vehicle_None_iff:
  "find_vehicle s b q = None \<longleftrightarrow>
     \<not> (\<exists>v \<in> set (vehicles s). iexact (v_plate_number v) q \<and> in_branch s b v)"
  by (auto simp: find_vehicle_def find_None_iff)

lemma find_vehicle_SomeD:
  "find_vehicle s b q = Some v \<Longrightarrow>
     v \<in> set (vehicles s) \<and> iexact (v_plate_number v) q \<and> in_branch s b v"
  unfolding find_vehicle_def by (auto simp: find_Some_iff)

lemma in_branch_customer:
  "in_branch s b v \<Longrightarrow> \<exists>c. customer_of s v = Some c \<and> c_branch c = b"
  by (auto simp: in_branch_def split: option.splits)

text \<open>
  C3, as amended. \<^verbatim>\<open>api_check_plate\<close> answers \<^verbatim>\<open>found: True\<close> if and only if the queried
  plate, trimmed of surrounding whitespace, is not empty and some vehicle whose customer
  belongs to the user's branch has that plate up to letter case. The data returned are
  those of the first such vehicle and of its customer, who is of the user's branch; so a
  plate that only vehicles of other branches carry is not found.
\<close>

theorem check_plate_found_iff:
  "(found (api_check_plate s ev (Some data)) \<longleftrightarrow>
      strip (case cp_plate_number data of None \<Rightarrow> [] | Some p \<Rightarrow> p) \<noteq> [] \<and>
      (\<exists>v \<in> set (vehicles s).
          iexact (v_plate_number v)
            (strip (case cp_plate_number data of None \<Rightarrow> [] | Some p \<Rightarrow> p))
          \<and> in_branch s (e_branch ev) v))
   \<and> (api_check_plate s ev (Some data) = Found ci vi \<longrightarrow>
        (\<exists>v c. find_vehicle s (e_branch ev)
                  (strip (case cp_plate_number data of None \<Rightarrow> [] | Some p \<Rightarrow> p)) = Some v
               \<and> customer_of s v = Some c \<and> c_branch c = e_branch ev
               \<and> ci = customer_info_of c \<and> vi = vehicle_info_of v))"
proof -
  define raw where "raw = (case cp_plate_number data of None \<Rightarrow> [] | Some p \<Rightarrow> p)"
  define q where "q = upper (strip raw)"
  have q_empty: "q = [] \<longleftrightarrow> strip raw = []"
    by (simp add: q_def upper_def)
  have fv: "find_vehicle s (e_branch ev) q = find_vehicle s (e_branch ev) (strip raw)"
    by (simp add: find_vehicle_def q_def iexact_upper)
  have unfold: "api_check_plate s ev (Some data) =
      (if strip raw = [] then NotFound
       else (case find_vehicle s (e_branch ev) (strip raw) of
               None \<Rightarrow> NotFound
             | Some vehicle \<Rightarrow>
                 (case customer_of s vehicle of
                    None \<Rightarrow> CheckError
                  | Some c \<Rightarrow> Found (customer_info_of c) (vehicle_info_of vehicle))))"
    using q_empty fv
    by (simp add: api_check_plate_def raw_def[symmetric] q_def[symmetric] Let_def)
  have iff: "found (api_check_plate s ev (Some data)) \<longleftrightarrow>
      strip raw \<noteq> [] \<and>
      (\<exists>v \<in> set (vehicles s).
         iexact (v_plate_number v) (strip raw) \<and> in_branch s (e_branch ev) v)"
  proof (cases "strip raw = []")
    case True
    then show ?thesis by (simp add: unfold found_def)
  next
    case False
    show ?thesis
    proof (cases "find_vehicle s (e_branch ev) (strip raw)")
      case None
      then show ?thesis
        using False find_vehicle_None_iff[of s "e_branch ev" "strip raw"]
        by (simp add: unfold found_def)
    next
      case (Some v)
      from find_vehicle_SomeD[OF Some] in_branch_customer[of s "e_branch ev" v]
      obtain c where "customer_of s v = Some c" by blast
      moreover have "\<exists>v \<in> set (vehicles s).
          iexact (v_plate_number v) (strip raw) \<and> in_branch s (e_branch ev) v"
        using find_vehicle_SomeD[OF Some] by blast
      ultimately show ?thesis
        using False Some by (simp add: unfold found_def)
    qed
  qed
  have data: "api_check_plate s ev (Some data) = Found ci vi \<longrightarrow>
        (\<exists>v c. find_vehicle s (e_branch ev) (strip raw) = Some v
               \<and> customer_of s v = Some c \<and> c_branch c = e_branch ev
               \<and> ci = customer_info_of c \<and> vi = vehicle_info_of v)"
  proof
    assume a: "api_check_plate s ev (Some data) = Found ci vi"
    then obtain v c where v: "find_vehicle s (e_branch ev) (strip raw) = Some v"
      and c: "customer_of s v = Some c"
      and r: "ci = customer_info_of c" "vi = vehicle_info_of v"
      by (auto simp: unfold split: if_splits option.splits)
    from find_vehicle_SomeD[OF v] c have "c_branch c = e_branch ev"
      by (simp add: in_branch_def)
    with v c r show "\<exists>v c. find_vehicle s (e_branch ev) (strip raw) = Some v
               \<and> customer_of s v = Some c \<and> c_branch c = e_branch ev
               \<and> ci = customer_info_of c \<and> vi = vehicle_info_of v"
      by blast
  qed
  from iff data show ?thesis
    unfolding raw_def by blast
qed

text \<open>
  On the sample shop a user of branch 1 finds the plate of branch 1 in lower case, with
  the data of vehicle 1 and customer 1, and does not find the plate of branch 2.
\<close>

theorem check_plate_found_iff_witness:
  "found (api_check_plate shop_db clerk (Some \<lparr>cp_plate_number = Some ''t123abc''\<rparr>))
   \<and> (\<exists>v c. find_vehicle shop_db (e_branch clerk) (strip ''t123abc'') = Some v
            \<and> customer_of shop_db v = Some c \<and> c_branch c = e_branch clerk
            \<and> customer_info_of (sample_customer 1 (Some 1) ''Asha'' ''0700'')
                = customer_info_of c
            \<and> vehicle_info_of (sample_vehicle 1 1 ''T123ABC'') = vehicle_info_of v)
   \<and> \<not> found (api_check_plate shop_db clerk (Some \<lparr>cp_plate_number = Some ''T999XYZ''\<rparr>))"
proof -
  have here: "strip ''t123abc'' \<noteq> [] \<and>
      (\<exists>v \<in> set (vehicles shop_db).
          iexact (v_plate_number v) (strip ''t123abc'') \<and> in_branch shop_db (e_branch clerk) v)"
    by code_simp
  have result: "api_check_plate shop_db clerk (Some \<lparr>cp_plate_number = Some ''t123abc''\<rparr>)
      = Found (customer_info_of (sample_customer 1 (Some 1) ''Asha'' ''0700''))
              (vehicle_info_of (sample_vehicle 1 1 ''T123ABC''))"
    by code_simp
  have elsewhere: "\<not> (\<exists>v \<in> set (vehicles shop_db).
          iexact (v_plate_number v) (strip ''T999XYZ'') \<and> in_branch shop_db (e_branch clerk) v)"
    by code_simp
  from here result
    check_plate_found_iff[of shop_db clerk "\<lparr>cp_plate_number = Some ''t123abc''\<rparr>"
      "customer_info_of (sample_customer 1 (Some 1) ''Asha'' ''0700'')"
      "vehicle_info_of (sample_vehicle 1 1 ''T123ABC'')"]
  have first: "found (api_check_plate shop_db clerk (Some \<lparr>cp_plate_number = Some ''t123abc''\<rparr>))
   \<and> (\<exists>v c. find_vehicle shop_db (e_branch clerk) (strip ''t123abc'') = Some v
            \<and> customer_of shop_db v = Some c \<and> c_branch c = e_branch clerk
            \<and> customer_info_of (sample_customer 1 (Some 1) ''Asha'' ''0700'')
                = customer_info_of c
            \<and> vehicle_info_of (sample_vehicle 1 1 ''T123ABC'') = vehicle_info_of v)"
    by simp
  from elsewhere
    check_plate_found_iff[of shop_db clerk "\<lparr>cp_plate_number = Some ''T999XYZ''\<rparr>"
      "customer_info_of (sample_customer 2 (Some 2) ''Ben'' ''0711'')"
      "vehicle_info_of (sample_vehicle 2 2 ''T999XYZ'')"]
  have "\<not> found (api_check_plate shop_db clerk (Some \<lparr>cp_plate_number = Some ''T999XYZ''\<rparr>))"
    by simp
  with first show ?thesis by blast
qed

text \<open>
  C3 as stated fails in two ways. A query with a leading blank finds the vehicle although
  no plate equals the queried string up to letter case, because the view trims the plate
  first; and an empty query is never found, even when a vehicle of the branch has the
  empty plate.
\<close>

theorem check_plate_trim_counterexample:
  "found (api_check_plate shop_db clerk (Some \<lparr>cp_plate_number = Some '' t123abc''\<rparr>))
   \<and> \<not> (\<exists>v \<in> set (vehicles shop_db).
           iexact (v_plate_number v) '' t123abc'' \<and> in_branch shop_db (e_branch clerk) v)
   \<and> \<not> found (api_check_plate (shop_db\<lparr>vehicles := [sample_vehicle 1 1 '''']\<rparr>) clerk
               (Some \<lparr>cp_plate_number = Some ''''\<rparr>))
   \<and> (\<exists>v \<in> set (vehicles (shop_db\<lparr>vehicles := [sample_vehicle 1 1 '''']\<rparr>)).
           iexact (v_plate_number v) ''''
           \<and> in_branch (shop_db\<lparr>vehicles := [sample_vehicle 1 1 '''']\<rparr>) (e_branch clerk) v)"
  by code_simp


section \<open>Properties of the overrun reason\<close>





section \<open>Properties of the dashboard figures\<close>

lemma count_list_map_filter:
  "count_list (List.map_filter f xs) y = length (filter (\<lambda>x. f x = Some y) xs)"
  by (induction xs) (auto simp: List.map_filter_simps split: option.splits)

lemma count_today_plates:
  "count_list (today_plates s b day) p =
     length (filter (\<lambda>ord. o_branch ord = b \<and> o_status ord = ''created'' \<and> started_on day ord \<and>
                           plate_of s ord = Some p) (orders s))"
  by (simp add: today_plates_def count_list_map_filter conj_commute conj_left_commute
      cong: conj_cong)

lemma length_filter_remdups_card:
  "length (filter P (remdups xs)) = card {x \<in> set xs. P x}"
proof -
  have "length (filter P (remdups xs)) = card (set (filter P (remdups xs)))"
    by (rule distinct_card[symmetric]) simp
  also have "set (filter P (remdups xs)) = {x \<in> set xs. P x}"
    by auto
  finally show ?thesis .
qed

lemma repeated_vehicles_today_card:
  "repeated_vehicles_today s b day = card {p. 2 \<le> count_list (today_plates s b day) p}"
proof -
  have "{p \<in> set (today_plates s b day). 2 \<le> count_list (today_plates s b day) p}
        = {p. 2 \<le> count_list (today_plates s b day) p}"
    by (auto simp: count_list_0_iff intro: ccontr)
  then show ?thesis
    by (simp add: repeated_vehicles_today_def length_filter_remdups_card)
qed

text \<open>
  C7, as amended. The figure \<^verbatim>\<open>repeated_vehicles_today\<close> is the number of distinct plate
  numbers that have at least two orders of the branch with status \<^verbatim>\<open>created\<close> started
  today; an order without vehicle has no plate and counts for none. Two such orders for
  one plate and one for another give the figure 1.
\<close>

theorem repeated_vehicles_counts_created_orders:
  "k_repeated_vehicles_today (api_started_orders_kpis s ev) =
     card {p. 2 \<le> length (filter (\<lambda>ord. o_branch ord = e_branch ev \<and>
                                       o_status ord = ''created'' \<and>
                                       started_on (date_of (e_now ev)) ord \<and>
                                       plate_of s ord = Some p) (orders s))}
   \<and> k_repeated_vehicles_today (api_started_orders_kpis (kpi_db ''created'') clerk) = 1"
proof -
  have "k_repeated_vehicles_today (api_started_orders_kpis (kpi_db ''created'') clerk) = 1"
    by code_simp
  then show ?thesis
    by (simp add: api_started_orders_kpis_def repeated_vehicles_today_card count_today_plates)
qed

text \<open>
  C7 as stated counts every order started today. Two orders started today for one plate
  that are already completed, and one for another plate, make one plate with two orders
  started today, yet the figure is 0: the query keeps orders of status \<^verbatim>\<open>created\<close> only.
\<close>

theorem repeated_vehicles_completed_counterexample:
  "k_repeated_vehicles_today (api_started_orders_kpis (kpi_db ''completed'') clerk) = 0
   \<and> spec_repeated_vehicles (kpi_db ''completed'') (e_branch clerk) (date_of (e_now clerk)) = 1"
proof -
  have code: "k_repeated_vehicles_today (api_started_orders_kpis (kpi_db ''completed'') clerk) = 0"
    by code_simp
  have "{p. 2 \<le> length (filter (\<lambda>ord. o_branch ord = Some 1 \<and> started_on 10 ord \<and>
             plate_of (kpi_db ''completed'') ord = Some p) (orders (kpi_db ''completed'')))}
        = {''T123ABC''}"
    by (auto simp: kpi_db_def shop_db_def empty_db_def started_order_def blank_order_def
        started_on_def date_of_def plate_of_def sample_vehicle_def split: if_splits)
  then have "spec_repeated_vehicles (kpi_db ''completed'') (e_branch clerk) (date_of (e_now clerk)) = 1"
    by (simp add: spec_repeated_vehicles_def clerk_def date_of_def)
  with code show ?thesis by simp
qed


section \<open>Properties of the order details update\<close>

lemma split_on_nonempty: "split_on c s \<noteq> []"
  by (induction s) (auto split: list.splits)

lemma split_on_no_sep: "x \<in> set (split_on c s) \<Longrightarrow> c \<notin> set x"
  by (induction s arbitrary: x) (auto split: if_splits list.splits)

lemma split_on_free: "c \<notin> set x \<Longrightarrow> split_on c x = [x]"
  by (induction x) auto

lemma split_on_append_sep:
  "c \<notin> set x \<Longrightarrow> split_on c (x @ c # rest) = x # split_on c rest"
  by (induction x) (auto simp: split_on_nonempty split: list.splits)

lemma split_on_join:
  "xs \<noteq> [] \<Longrightarrow> \<forall>x \<in> set xs. c \<notin> set x \<Longrightarrow> split_on c (join [c] xs) = xs"
proof (induction "[c]" xs rule: join.induct)
  case 1
  then show ?case by simp
next
  case (2 x)
  then show ?case by (simp add: split_on_free)
next
  case (3 x y ys)
  then show ?case by (simp add: split_on_append_sep)
qed

lemma set_join: "set (join sep xs) \<subseteq> set sep \<union> \<Union> (set ` set xs)"
  by (induction sep xs rule: join.induct) auto

lemma strip_keeps_prefix:
  assumes "p \<noteq> []" and "\<not> is_space (hd p)" and "\<not> is_space (last p)"
  shows "\<exists>r. strip (p @ t) = p @ r"
proof -
  from assms(1,2) have front: "dropWhile is_space (p @ t) = p @ t"
    by (cases p) auto
  have rear: "\<exists>r. dropWhile is_space (rev t @ rev p) = r @ rev p"
  proof (cases "\<forall>x \<in> set (rev t). is_space x")
    case True
    from assms(1,3) have "dropWhile is_space (rev p) = rev p"
      by (cases p rule: rev_cases) auto
    with True show ?thesis
      by (simp add: dropWhile_append)
  next
    case False
    then show ?thesis
      by (auto simp: dropWhile_append)
  qed
  then obtain r where "dropWhile is_space (rev t @ rev p) = r @ rev p" by blast
  with front show ?thesis
    by (simp add: strip_def)
qed

lemma lower_append: "lower (a @ b) = lower a @ lower b"
  by (simp add: lower_def)

lemma startswith_append: "startswith (p @ r) p"
  by (simp add: startswith_def)

lemma startswith_append_left:
  assumes "startswith a h"
  shows "startswith (a @ x) h"
proof -
  from assms have e: "take (length h) a = h"
    by (simp add: startswith_def)
  have "length h \<le> length a"
    using arg_cong[where f = length, OF e] by simp
  with e show ?thesis
    by (simp add: startswith_def)
qed

lemma header_line_prefix:
  assumes "p \<noteq> []" and "\<not> is_space (hd p)" and "\<not> is_space (last p)"
    and "startswith (lower p) h"
  shows "startswith (lower (strip (p @ t))) h"
proof -
  from strip_keeps_prefix[OF assms(1-3)] obtain r where "strip (p @ t) = p @ r"
    by blast
  then have "lower (strip (p @ t)) = lower p @ lower r"
    by (simp add: lower_append)
  with startswith_append_left[OF assms(4)] show ?thesis
    by simp
qed

lemma header_services: "is_header_line (''Services: '' @ t)"
proof -
  have 1: "''Services:'' \<noteq> []" by simp
  have 2: "\<not> is_space (hd ''Services:'')" by code_simp
  have 3: "\<not> is_space (last ''Services:'')" by code_simp
  have 4: "startswith (lower ''Services:'') ''services:''" by code_simp
  have e: "''Services:'' @ ('' '' @ t) = ''Services: '' @ t" by simp
  from header_line_prefix[OF 1 2 3 4, of "'' '' @ t"]
  have "startswith (lower (strip (''Services: '' @ t))) ''services:''"
    unfolding e .
  then show ?thesis
    unfolding is_header_line_def by blast
qed

lemma header_tire: "is_header_line (''Tire Services: '' @ t)"
proof -
  have 1: "''Tire Services:'' \<noteq> []" by simp
  have 2: "\<not> is_space (hd ''Tire Services:'')" by code_simp
  have 3: "\<not> is_space (last ''Tire Services:'')" by code_simp
  have 4: "startswith (lower ''Tire Services:'') ''tire services:''" by code_simp
  have e: "''Tire Services:'' @ ('' '' @ t) = ''Tire Services: '' @ t" by simp
  from header_line_prefix[OF 1 2 3 4, of "'' '' @ t"]
  have "startswith (lower (strip (''Tire Services: '' @ t))) ''tire services:''"
    unfolding e .
  then show ?thesis
    unfolding is_header_line_def by blast
qed

lemma header_not_blank: "is_header_line l \<Longrightarrow> strip l \<noteq> []"
  by (auto simp: is_header_line_def startswith_def lower_def)


lemma newline_not_in_join:
  assumes "\<forall>sv \<in> set services. newline \<notin> set sv"
  shows "newline \<notin> set (join '', '' services)"
proof -
  have "newline \<notin> set '', ''" by code_simp
  with assms set_join[of "'', ''" services] show ?thesis by auto
qed

lemma header_of_is_header: "is_header_line (header_of ord services)"
  unfolding header_of_def
  by (rule if_split[THEN iffD2]) (intro conjI impI header_services header_tire)

lemma header_of_no_newline:
  assumes "\<forall>sv \<in> set services. newline \<notin> set sv"
  shows "newline \<notin> set (header_of ord services)"
proof -
  have "newline \<notin> set ''Tire Services: ''" "newline \<notin> set ''Services: ''"
    by code_simp+
  with newline_not_in_join[OF assms] show ?thesis
    by (simp add: header_of_def)
qed

lemma update_services_description:
  assumes "services \<noteq> []"
  shows "update_services ord services =
           ord\<lparr>o_description := Some (join [newline] (kept_lines ord @ [header_of ord services]))\<rparr>"
proof -
  have "strip (header_of ord services) \<noteq> []"
    by (rule header_not_blank) (rule header_of_is_header)
  then show ?thesis
    using assms
    by (simp add: update_services_def Let_def kept_lines_def header_of_def conj_commute
        split: if_splits)
qed

lemma split_updated:
  assumes "\<forall>sv \<in> set services. newline \<notin> set sv"
  shows "split_on newline (join [newline] (kept_lines ord @ [header_of ord services]))
           = kept_lines ord @ [header_of ord services]"
proof (rule split_on_join)
  show "kept_lines ord @ [header_of ord services] \<noteq> []" by simp
  show "\<forall>x \<in> set (kept_lines ord @ [header_of ord services]). newline \<notin> set x"
    using header_of_no_newline[OF assms] split_on_no_sep
    by (auto simp: kept_lines_def)
qed

lemma kept_lines_updated:
  assumes "services \<noteq> []" and "\<forall>sv \<in> set services. newline \<notin> set sv"
  shows "kept_lines (update_services ord services) = kept_lines ord"
proof -
  have "kept_lines (update_services ord services) =
      filter (\<lambda>l. strip l \<noteq> [] \<and> \<not> is_header_line l) (kept_lines ord @ [header_of ord services])"
    by (simp add: update_services_description[OF assms(1)] kept_lines_def[of "_\<lparr>o_description := _\<rparr>"]
        split_updated[OF assms(2)])
  also have "\<dots> = kept_lines ord"
    by (simp add: header_of_is_header kept_lines_def)
  finally show ?thesis .
qed

lemma update_services_single_header:
  assumes "services \<noteq> []" and "\<forall>sv \<in> set services. newline \<notin> set sv"
  shows "o_description (update_services ord services) =
           Some (join [newline]
             (filter (\<lambda>l. strip l \<noteq> [] \<and> \<not> is_header_line l)
                (split_on newline (case o_description ord of None \<Rightarrow> [] | Some d \<Rightarrow> d))
              @ [(if o_type ord = ''sales'' then ''Tire Services: '' else ''Services: '')
                   @ join '', '' services]))
         \<and> header_lines (o_description (update_services ord services)) =
             [(if o_type ord = ''sales'' then ''Tire Services: '' else ''Services: '')
                @ join '', '' services]
         \<and> update_services (update_services ord services) services = update_services ord services"
proof -
  have h: "header_of ord services =
      (if o_type ord = ''sales'' then ''Tire Services: '' else ''Services: '') @ join '', '' services"
    by (simp add: header_of_def)
  have d: "o_description (update_services ord services) =
      Some (join [newline] (kept_lines ord @ [header_of ord services]))"
    by (simp add: update_services_description[OF assms(1)])
  have "filter is_header_line (kept_lines ord @ [header_of ord services]) = [header_of ord services]"
    by (simp add: header_of_is_header kept_lines_def)
  then have one: "header_lines (o_description (update_services ord services)) = [header_of ord services]"
    by (simp add: d header_lines_def split_updated[OF assms(2)])
  have ty: "header_of (update_services ord services) services = header_of ord services"
    by (simp add: update_services_description[OF assms(1)] header_of_def)
  have twice: "update_services (update_services ord services) services = update_services ord services"
    using kept_lines_updated[OF assms] ty
    by (simp add: update_services_description[OF assms(1), of "update_services ord services"])
       (simp add: update_services_description[OF assms(1)])
  from d one twice show ?thesis
    unfolding h kept_lines_def by simp
qed


lemma update_services_estimated:
  "update_services (ord\<lparr>o_estimated_duration := e\<rparr>) services
     = (update_services ord services)\<lparr>o_estimated_duration := e\<rparr>"
  by (simp add: update_services_def Let_def)

lemma update_order_details_twice:
  assumes "update_services (update_services ord (dr_services req)) (dr_services req)
             = update_services ord (dr_services req)"
  shows "update_order_details (update_order_details ord req) req = update_order_details ord req"
  using assms
  by (cases "py_int (dr_estimated_duration req)")
     (simp_all add: update_order_details_def Let_def update_services_estimated)

lemma update_services_id: "o_id (update_services ord services) = o_id ord"
  by (simp add: update_services_def Let_def)

lemma update_services_branch: "o_branch (update_services ord services) = o_branch ord"
  by (simp add: update_services_def Let_def)

lemma update_order_details_id: "o_id (update_order_details ord req) = o_id ord"
  by (simp add: update_order_details_def Let_def update_services_id split: option.splits)

lemma update_order_details_branch: "o_branch (update_order_details ord req) = o_branch ord"
  by (simp add: update_order_details_def Let_def update_services_branch split: option.splits)

lemma find_save_order:
  assumes "o_branch obj = b" and "o_id obj = oid"
  shows "find (\<lambda>x. o_id x = oid \<and> o_branch x = b) (save_order obj rows) =
           (if \<exists>row \<in> set rows. o_id row = oid
            then Some obj
            else None)"
  using assms by (induction rows) (auto simp: save_order_def)

lemma get_order_after_save:
  assumes "get_order s oid b = Some ord" and "o_branch obj = b" and "o_id obj = oid"
  shows "get_order (s\<lparr>orders := save_order obj (orders s)\<rparr>) oid b = Some obj"
proof -
  from assms(1) have "\<exists>row \<in> set (orders s). o_id row = oid"
    by (auto simp: get_order_def find_Some_iff)
  then show ?thesis
    by (simp add: get_order_def find_save_order[OF assms(2,3)])
qed

lemma save_order_twice: "save_order obj (save_order obj rows) = save_order obj rows"
  by (induction rows) (auto simp: save_order_def)

lemma detail_update_twice:
  assumes "update_order_details (update_order_details ord req) req = update_order_details ord req"
    and "get_order s oid (e_branch ev) = Some ord"
  shows "started_order_detail_update s ev oid req
           = Some (s\<lparr>orders := save_order (update_order_details ord req) (orders s)\<rparr>)
         \<and> started_order_detail_update
             (s\<lparr>orders := save_order (update_order_details ord req) (orders s)\<rparr>) ev oid req
           = Some (s\<lparr>orders := save_order (update_order_details ord req) (orders s)\<rparr>)"
proof -
  from assms(2) have id: "o_id ord = oid" and br: "o_branch ord = e_branch ev"
    by (auto simp: get_order_def find_Some_iff)
  have "get_order (s\<lparr>orders := save_order (update_order_details ord req) (orders s)\<rparr>) oid (e_branch ev)
      = Some (update_order_details ord req)"
    by (rule get_order_after_save[OF assms(2)])
       (simp_all add: update_order_details_id update_order_details_branch id br)
  then show ?thesis
    using assms by (simp add: started_order_detail_update_def save_order_twice)
qed

text \<open>
  C9, as amended. For every order and every non-empty list of selected services none of
  which contains a line break, the action \<^verbatim>\<open>update_order_details\<close> removes from the
  description every line whose trimmed, lower-cased text starts with \<^verbatim>\<open>services:\<close>,
  \<^verbatim>\<open>add-ons:\<close> or \<^verbatim>\<open>tire services:\<close> (and every blank line), then appends one header line,
  \<^verbatim>\<open>Tire Services: ...\<close> for a sales order and \<^verbatim>\<open>Services: ...\<close> otherwise, listing the
  selected services. The resulting description has exactly that one header line, and
  applying the same update again changes nothing, on the order object and in the
  database.
\<close>

theorem update_order_details_single_header:
  assumes "dr_services req \<noteq> []" and "\<forall>sv \<in> set (dr_services req). newline \<notin> set sv"
  shows "o_description (update_order_details ord req) =
           Some (join [newline]
             (filter (\<lambda>l. strip l \<noteq> [] \<and> \<not> is_header_line l)
                (split_on newline (case o_description ord of None \<Rightarrow> [] | Some d \<Rightarrow> d))
              @ [(if o_type ord = ''sales'' then ''Tire Services: '' else ''Services: '')
                   @ join '', '' (dr_services req)]))
         \<and> header_lines (o_description (update_order_details ord req)) =
             [(if o_type ord = ''sales'' then ''Tire Services: '' else ''Services: '')
                @ join '', '' (dr_services req)]
         \<and> update_order_details (update_order_details ord req) req = update_order_details ord req
         \<and> (get_order s oid (e_branch ev) = Some ord \<longrightarrow>
              (\<exists>s1. started_order_detail_update s ev oid req = Some s1 \<and>
                    started_order_detail_update s1 ev oid req = Some s1))"
proof -
  note base = update_services_single_header[OF assms, of ord]
  have desc: "o_description (update_order_details ord req) =
      o_description (update_services ord (dr_services req))"
    by (simp add: update_order_details_def Let_def split: option.splits)
  have twice: "update_order_details (update_order_details ord req) req = update_order_details ord req"
    by (rule update_order_details_twice) (simp add: base)
  have db: "get_order s oid (e_branch ev) = Some ord \<longrightarrow>
              (\<exists>s1. started_order_detail_update s ev oid req = Some s1 \<and>
                    started_order_detail_update s1 ev oid req = Some s1)"
    using detail_update_twice[OF twice] by blast
  from base twice db show ?thesis
    unfolding desc by blast
qed

theorem update_order_details_single_header_witness:
  "header_lines (o_description (update_order_details noted_order oil_request))
     = [''Services: Oil change, Wash'']
   \<and> update_order_details (update_order_details noted_order oil_request) oil_request
     = update_order_details noted_order oil_request
   \<and> (\<exists>s1. started_order_detail_update (empty_db\<lparr>orders := [noted_order]\<rparr>) clerk 1 oil_request
              = Some s1
           \<and> started_order_detail_update s1 clerk 1 oil_request = Some s1)"
proof -
  have h1: "dr_services oil_request \<noteq> []"
    by (simp add: oil_request_def)
  have h2: "\<forall>sv \<in> set (dr_services oil_request). newline \<notin> set sv"
    by code_simp
  have h3: "get_order (empty_db\<lparr>orders := [noted_order]\<rparr>) 1 (e_branch clerk) = Some noted_order"
    by code_simp
  have e: "(if o_type noted_order = ''sales'' then ''Tire Services: '' else ''Services: '')
             @ join '', '' (dr_services oil_request) = ''Services: Oil change, Wash''"
    by code_simp
  note inst = update_order_details_single_header[OF h1 h2, of noted_order
      "empty_db\<lparr>orders := [noted_order]\<rparr>" 1 clerk]
  from inst have "header_lines (o_description (update_order_details noted_order oil_request))
     = [(if o_type noted_order = ''sales'' then ''Tire Services: '' else ''Services: '')
             @ join '', '' (dr_services oil_request)]"
    by blast
  then have a: "header_lines (o_description (update_order_details noted_order oil_request))
     = [''Services: Oil change, Wash'']"
    unfolding e .
  from inst h3 a show ?thesis
    by blast
qed

text \<open>
  C9 as stated fails for a selected service that contains a line break. With the one
  selected name \<^verbatim>\<open>Oil\nServices: Wash\<close> the new description has two header lines; with
  \<^verbatim>\<open>Oil\nsee note\<close> the second line of the name is kept as a line of its own by the
  next update, so that the description after two updates differs from the one after one.
\<close>

theorem update_order_details_newline_counterexample:
  "length (header_lines (o_description (update_order_details noted_order two_header_request))) = 2
   \<and> o_description (update_order_details (update_order_details noted_order two_line_request)
        two_line_request)
       \<noteq> o_description (update_order_details noted_order two_line_request)"
  by code_simp


section \<open>Properties of the modal forms\<close>




lemma py_int_empty: "py_int [] = None"
  by (simp add: py_int_def strip_def)



lemma get_order_cong: "orders s1 = orders s \<Longrightarrow> get_order s1 oid b = get_order s oid b"
  by (simp add: get_order_def)









end
